theory Spec2Isabelle
  imports Main
begin

section \<open>Python values\<close>

text \<open>
  The matchers of \<^verbatim>\<open>matchers.py\<close> are compared against arbitrary Python objects.
  The values modelled here are \<^verbatim>\<open>None\<close>, booleans, integers, strings,
  \<^verbatim>\<open>uuid.UUID\<close> instances (identified by their 128-bit \<^verbatim>\<open>int\<close> attribute),
  lists and tuples, the floating point value \<^verbatim>\<open>float('nan')\<close> and plain instances of
  \<^verbatim>\<open>object\<close>. A NaN and a plain object carry the identity of the object: a plain
  object equals only itself, a NaN is not even equal to itself. Other floating point
  numbers are not part of the model.
  Exceptions are values of type \<open>error\<close>; a computation that may raise returns
  \<open>error + 'a\<close> with \<open>Inl\<close> for the exception.
\<close>

datatype error = TypeError | ValueError | AttributeError | ReError

datatype pyval =
    VNone
  | VBool bool
  | VInt int
  | VStr string
  | VUUID int
  | VList "pyval list"
  | VTuple "pyval list"
  | VNaN nat
  | VObject nat

text \<open>
  A list object that the caller still holds a reference to lives in a heap indexed by
  object identity, so that a later mutation by the caller is visible through every
  reference.
\<close>

type_synonym heap = "nat \<Rightarrow> pyval"

text \<open>\<^verbatim>\<open>bool\<close> is a subclass of \<^verbatim>\<open>int\<close>: \<^verbatim>\<open>True == 1\<close> and \<^verbatim>\<open>False == 0\<close>.\<close>

definition int_of_bool :: "bool \<Rightarrow> int" where
  "int_of_bool b = (if b then 1 else 0)"

text \<open>
  Containers compare their elements with the interpreter's \<^verbatim>\<open>PyObject_RichCompareBool\<close>:
  \<^verbatim>\<open>x is y or x == y\<close>. Identity decides for a NaN only; every other value that is
  identical to another is equal to it as well. Lists and tuples compare elementwise.
\<close>

fun rich_eq :: "pyval \<Rightarrow> pyval \<Rightarrow> bool"
  and py_eq_list :: "pyval list \<Rightarrow> pyval list \<Rightarrow> bool" where
  "rich_eq VNone VNone = True"
| "rich_eq (VBool a) (VBool b) = (a = b)"
| "rich_eq (VBool a) (VInt b) = (int_of_bool a = b)"
| "rich_eq (VInt a) (VBool b) = (a = int_of_bool b)"
| "rich_eq (VInt a) (VInt b) = (a = b)"
| "rich_eq (VStr a) (VStr b) = (a = b)"
| "rich_eq (VUUID a) (VUUID b) = (a = b)"
| "rich_eq (VList a) (VList b) = py_eq_list a b"
| "rich_eq (VTuple a) (VTuple b) = py_eq_list a b"
| "rich_eq (VNaN a) (VNaN b) = (a = b)"
| "rich_eq (VObject a) (VObject b) = (a = b)"
| "rich_eq _ _ = False"
| "py_eq_list [] [] = True"
| "py_eq_list (x # xs) (y # ys) = (rich_eq x y \<and> py_eq_list xs ys)"
| "py_eq_list _ _ = False"



text \<open>Strings are ordered lexicographically by code point.\<close>

fun str_lt :: "string \<Rightarrow> string \<Rightarrow> bool" where
  "str_lt [] [] = False"
| "str_lt [] (d # ds) = True"
| "str_lt (c # cs) [] = False"
| "str_lt (c # cs) (d # ds) =
     (if c = d then str_lt cs ds else (of_char c :: nat) < of_char d)"

text \<open>
  Python's \<^verbatim>\<open><\<close>: numbers with numbers (false whenever a NaN is involved), strings
  with strings, UUIDs with UUIDs, sequences of one kind lexicographically (the first
  pair of elements that \<^verbatim>\<open>PyObject_RichCompareBool\<close> finds unequal decides); every
  other pair of types raises \<^verbatim>\<open>TypeError\<close>.
\<close>

fun py_lt :: "pyval \<Rightarrow> pyval \<Rightarrow> error + bool"
  and py_lt_list :: "pyval list \<Rightarrow> pyval list \<Rightarrow> error + bool" where
  "py_lt (VBool a) (VBool b) = Inr (int_of_bool a < int_of_bool b)"
| "py_lt (VBool a) (VInt b) = Inr (int_of_bool a < b)"
| "py_lt (VInt a) (VBool b) = Inr (a < int_of_bool b)"
| "py_lt (VInt a) (VInt b) = Inr (a < b)"
| "py_lt (VNaN a) (VNaN b) = Inr False"
| "py_lt (VNaN a) (VBool b) = Inr False"
| "py_lt (VNaN a) (VInt b) = Inr False"
| "py_lt (VBool a) (VNaN b) = Inr False"
| "py_lt (VInt a) (VNaN b) = Inr False"
| "py_lt (VStr a) (VStr b) = Inr (str_lt a b)"
| "py_lt (VUUID a) (VUUID b) = Inr (a < b)"
| "py_lt (VList a) (VList b) = py_lt_list a b"
| "py_lt (VTuple a) (VTuple b) = py_lt_list a b"
| "py_lt _ _ = Inl TypeError"
| "py_lt_list [] [] = Inr False"
| "py_lt_list [] (y # ys) = Inr True"
| "py_lt_list (x # xs) [] = Inr False"
| "py_lt_list (x # xs) (y # ys) =
     (if rich_eq x y then py_lt_list xs ys else py_lt x y)"

text \<open>
  \<^verbatim>\<open>sorted(v)\<close> iterates over \<open>v\<close> (a \<^verbatim>\<open>TypeError\<close> when \<open>v\<close> is not iterable) and
  sorts the elements into a new list, comparing with \<^verbatim>\<open><\<close> only; a comparison that
  raises aborts the sort. The sort follows the interpreter's \<^verbatim>\<open>list.sort\<close> (CPython
  3.12) for a list of fewer than 64 elements, where the whole list is one run:
  \<^verbatim>\<open>count_run\<close> takes the longest prefix that is ascending (no element less than
  its predecessor) or strictly descending (then reversed), and \<^verbatim>\<open>binarysort\<close> inserts
  each remaining element at the place a binary search over the run finds. From 64
  elements on the interpreter sorts shorter runs and merges them; the result is the
  same whenever \<^verbatim>\<open><\<close> orders the elements totally and consistently, which excludes a
  NaN among them.
\<close>

definition py_iter :: "pyval \<Rightarrow> error + pyval list" where
  "py_iter v =
     (case v of
        VList xs \<Rightarrow> Inr xs
      | VTuple xs \<Rightarrow> Inr xs
      | VStr s \<Rightarrow> Inr (map (\<lambda>c. VStr [c]) s)
      | _ \<Rightarrow> Inl TypeError)"

text \<open>
  The run, continued after its last element \<open>prev\<close>; \<open>acc\<close> holds the run so far, last
  element first.
\<close>

fun run_descending ::
  "pyval \<Rightarrow> pyval list \<Rightarrow> pyval list \<Rightarrow> error + (pyval list \<times> pyval list)" where
  "run_descending prev acc [] = Inr (acc, [])"
| "run_descending prev acc (x # xs) =
     (case py_lt x prev of
        Inl e \<Rightarrow> Inl e
      | Inr lt \<Rightarrow> if lt then run_descending x (x # acc) xs else Inr (acc, x # xs))"

fun run_ascending ::
  "pyval \<Rightarrow> pyval list \<Rightarrow> pyval list \<Rightarrow> error + (pyval list \<times> pyval list)" where
  "run_ascending prev acc [] = Inr (rev acc, [])"
| "run_ascending prev acc (x # xs) =
     (case py_lt x prev of
        Inl e \<Rightarrow> Inl e
      | Inr lt \<Rightarrow> if lt then Inr (rev acc, x # xs) else run_ascending x (x # acc) xs)"

text \<open>The first run, in ascending order, and the elements after it.\<close>

fun count_run :: "pyval list \<Rightarrow> error + (pyval list \<times> pyval list)" where
  "count_run [] = Inr ([], [])"
| "count_run [x] = Inr ([x], [])"
| "count_run (x0 # x1 # xs) =
     (case py_lt x1 x0 of
        Inl e \<Rightarrow> Inl e
      | Inr lt \<Rightarrow>
          if lt then run_descending x1 [x1, x0] xs
          else run_ascending x1 [x1, x0] xs)"

text \<open>
  The binary search of \<^verbatim>\<open>binarysort\<close> for the place of \<open>pivot\<close> in the sorted \<open>run\<close>,
  between the indices \<open>l\<close> and \<open>r\<close>:
  \<^verbatim>\<open>
      p = l + ((r - l) >> 1);
      IFLT(pivot, *p) r = p; else l = p+1;
  \<close>
\<close>

function bisect :: "pyval \<Rightarrow> pyval list \<Rightarrow> nat \<Rightarrow> nat \<Rightarrow> error + nat" where
  "bisect pivot run l r =
     (if l < r
      then (let p = l + (r - l) div 2
            in case py_lt pivot (run ! p) of
                 Inl e \<Rightarrow> Inl e
               | Inr lt \<Rightarrow> if lt then bisect pivot run l p else bisect pivot run (p + 1) r)
      else Inr l)"
  by pat_completeness auto
termination
  by (relation "measure (\<lambda>(pivot, run, l, r). r - l)") auto

declare bisect.simps [simp del]

fun binarysort :: "pyval list \<Rightarrow> pyval list \<Rightarrow> error + pyval list" where
  "binarysort run [] = Inr run"
| "binarysort run (pivot # xs) =
     (case bisect pivot run 0 (length run) of
        Inl e \<Rightarrow> Inl e
      | Inr l \<Rightarrow> binarysort (take l run @ pivot # drop l run) xs)"

definition list_sort :: "pyval list \<Rightarrow> error + pyval list" where
  "list_sort xs =
     (case count_run xs of
        Inl e \<Rightarrow> Inl e
      | Inr (run, rest) \<Rightarrow> binarysort run rest)"

definition sorted_py :: "pyval \<Rightarrow> error + pyval list" where
  "sorted_py v = (case py_iter v of Inl e \<Rightarrow> Inl e | Inr xs \<Rightarrow> list_sort xs)"

text \<open>\<^verbatim>\<open>isinstance\<close> against the classes the module tests for.\<close>

definition isinstance_int :: "pyval \<Rightarrow> bool" where
  "isinstance_int v = (case v of VInt _ \<Rightarrow> True | VBool _ \<Rightarrow> True | _ \<Rightarrow> False)"

definition isinstance_str :: "pyval \<Rightarrow> bool" where
  "isinstance_str v = (case v of VStr _ \<Rightarrow> True | _ \<Rightarrow> False)"

definition isinstance_str_UUID :: "pyval \<Rightarrow> bool" where
  "isinstance_str_UUID v = (case v of VStr _ \<Rightarrow> True | VUUID _ \<Rightarrow> True | _ \<Rightarrow> False)"

text \<open>\<^verbatim>\<open>v in items\<close> for a tuple \<open>items\<close>: some element is \<open>v\<close> or equals \<open>v\<close>.\<close>

definition py_in :: "pyval \<Rightarrow> pyval list \<Rightarrow> bool" where
  "py_in v items = list_ex (\<lambda>x. rich_eq x v) items"

subsection \<open>String methods\<close>

definition startswith :: "string \<Rightarrow> string \<Rightarrow> bool" where
  "startswith s p = (take (length p) s = p)"

function str_replace :: "string \<Rightarrow> string \<Rightarrow> string \<Rightarrow> string" where
  "str_replace old new [] = (if old = [] then new else [])"
| "str_replace old new (c # cs) =
     (if old = [] then new @ c # str_replace old new cs
      else if take (length old) (c # cs) = old
           then new @ str_replace old new (drop (length old) (c # cs))
      else c # str_replace old new cs)"
  by pat_completeness auto
termination
  by (relation "measure (\<lambda>(old, new, s). length s)") (auto simp: neq_Nil_conv)

definition str_strip :: "string \<Rightarrow> string \<Rightarrow> string" where
  "str_strip s chars =
     rev (dropWhile (\<lambda>c. c \<in> set chars) (rev (dropWhile (\<lambda>c. c \<in> set chars) s)))"


section \<open>The standard library\<close>

text \<open>
  \<^verbatim>\<open>int(s, 16)\<close>, after the interpreter's \<^verbatim>\<open>PyLong_FromString\<close>: white space on both
  sides, an optional sign, an optional prefix \<^verbatim>\<open>0x\<close> (one underscore may follow it),
  then digits, single underscores allowed between digits only, and at least one digit.
  \<open>None\<close> stands for \<^verbatim>\<open>ValueError\<close>. Characters are code points below 256; the
  white space among them is tab to carriage return, the space, U+0085 and U+00A0.
\<close>

definition is_space :: "char \<Rightarrow> bool" where
  "is_space c = ((of_char c :: nat) \<in> {9, 10, 11, 12, 13, 32, 133, 160})"

definition digit_value :: "char \<Rightarrow> nat" where
  "digit_value c =
     (let n = (of_char c :: nat)
      in if 48 \<le> n \<and> n \<le> 57 then n - 48
         else if 97 \<le> n \<and> n \<le> 122 then n - 87
         else if 65 \<le> n \<and> n \<le> 90 then n - 55
         else 37)"

text \<open>
  The scan over digits and underscores: \<open>prev\<close> tells whether the previous character was
  an underscore, \<open>acc\<close> is the value read, \<open>n\<close> the number of digits. The result holds
  the rest of the string, from the first character that is neither.
\<close>

fun scan_digits :: "nat \<Rightarrow> bool \<Rightarrow> nat \<Rightarrow> nat \<Rightarrow> string \<Rightarrow> (nat \<times> nat \<times> string) option" where
  "scan_digits base prev acc n [] = (if prev then None else Some (acc, n, []))"
| "scan_digits base prev acc n (c # cs) =
     (if digit_value c < base then scan_digits base False (acc * base + digit_value c) (Suc n) cs
      else if c = CHR ''_'' then (if prev then None else scan_digits base True acc n cs)
      else if prev then None
      else Some (acc, n, c # cs))"

definition skip_sign :: "string \<Rightarrow> bool \<times> string" where
  "skip_sign s =
     (case s of
        [] \<Rightarrow> (False, s)
      | c # cs \<Rightarrow>
          if c = CHR ''+'' then (False, cs)
          else if c = CHR ''-'' then (True, cs)
          else (False, s))"

definition skip_prefix16 :: "string \<Rightarrow> string" where
  "skip_prefix16 s =
     (case s of
        a # b # cs \<Rightarrow>
          if a = CHR ''0'' \<and> (b = CHR ''x'' \<or> b = CHR ''X'')
          then (case cs of
                  [] \<Rightarrow> cs
                | u # ds \<Rightarrow> if u = CHR ''_'' then ds else cs)
          else s
      | _ \<Rightarrow> s)"

definition int_base16 :: "string \<Rightarrow> int option" where
  "int_base16 s =
     (let (neg, s2) = skip_sign (dropWhile is_space s);
          s3 = skip_prefix16 s2
      in if take 1 s3 = ''_'' then None
         else (case scan_digits 16 False 0 0 s3 of
                 None \<Rightarrow> None
               | Some (v, n, rest) \<Rightarrow>
                   if n = 0 then None
                   else if dropWhile is_space rest \<noteq> [] then None
                   else Some (if neg then - int v else int v)))"

text \<open>
  \<^verbatim>\<open>uuid.UUID(hex)\<close> with a single positional argument, after the standard library:
  \<^verbatim>\<open>
      hex = hex.replace('urn:', '').replace('uuid:', '')
      hex = hex.strip('{}').replace('-', '')
      if len(hex) != 32:
          raise ValueError('badly formed hexadecimal UUID string')
      int = int_(hex, 16)
      ...
      if not 0 <= int < 1<<128:
          raise ValueError('int is out of range (need a 128-bit value)')
  \<close>
  An argument that is \<^verbatim>\<open>None\<close> leaves all five sources unset (\<^verbatim>\<open>TypeError\<close>); any
  other argument that is not a string has no \<^verbatim>\<open>replace\<close> method (\<^verbatim>\<open>AttributeError\<close>).
\<close>

definition UUID_init :: "pyval \<Rightarrow> error + pyval" where
  "UUID_init hex =
     (case hex of
        VNone \<Rightarrow> Inl TypeError
      | VStr s \<Rightarrow>
          (let s1 = str_replace ''uuid:'' [] (str_replace ''urn:'' [] s);
               s2 = str_replace ''-'' [] (str_strip s1 ''{}'')
           in if length s2 \<noteq> 32 then Inl ValueError
              else (case int_base16 s2 of
                      None \<Rightarrow> Inl ValueError
                    | Some i \<Rightarrow>
                        if \<not> (0 \<le> i \<and> i < 2 ^ 128) then Inl ValueError
                        else Inr (VUUID i)))
      | _ \<Rightarrow> Inl AttributeError)"

section \<open>The matcher\<close>

text \<open>
  \<^verbatim>\<open>_not_compared\<close> and \<^verbatim>\<open>_not_matched\<close> are two sentinel objects of the module, plain
  instances of \<^verbatim>\<open>object\<close> created when the module is loaded. The attribute \<^verbatim>\<open>actual\<close>
  holds one of them or the value last matched, and a sentinel is told from a value by
  identity. Nothing keeps a caller from comparing a matcher with a sentinel itself:
  the attribute \<^verbatim>\<open>actual\<close> of any matcher that has not matched hands out
  \<^verbatim>\<open>_not_matched\<close>.
\<close>

definition not_compared :: pyval where
  "not_compared = VObject 0"

definition not_matched :: pyval where
  "not_matched = VObject 1"

datatype cls =
    C_AnyIf | C_AnyInteger | C_AnyString | C_AnyUUID | C_AnyStringMatchingRegex
  | C_Unordered | C_AnyOf | C_AnyWebURLString

text \<open>
  An instance of \<^verbatim>\<open>AnyIf\<close> or of one of its subclasses. A validator is a callable of one
  argument; it may read objects the caller can still mutate, hence the heap.
  The attribute \<^verbatim>\<open>other\<close>, set by \<^verbatim>\<open>AnyStringMatchingRegex\<close> only, is \<open>other_attr\<close>.
\<close>

record AnyIf =
  cls :: cls
  description :: string
  validator :: "(heap \<Rightarrow> pyval \<Rightarrow> error + bool) option"
  actual :: pyval
  actuals :: "pyval list"
  other_attr :: "(string \<Rightarrow> bool) option"

text \<open>
  \<^verbatim>\<open>
    def __init__(self, validator=None):
        self.description = super().__repr__()
        self.validator = validator
        self.actual = _not_matched
        self.actuals = []
  \<close>
  \<open>self_cls\<close> is the class of the object under construction and \<open>self_repr\<close> the string
  \<^verbatim>\<open>object.__repr__(self)\<close>, which names the class and the identity of the object.
\<close>

definition AnyIf_init ::
  "cls \<Rightarrow> string \<Rightarrow> (heap \<Rightarrow> pyval \<Rightarrow> error + bool) option \<Rightarrow> AnyIf" where
  "AnyIf_init self_cls self_repr validator' =
     \<lparr> cls = self_cls, description = self_repr, validator = validator',
       actual = not_matched, actuals = [], other_attr = None \<rparr>"

definition compared :: "AnyIf \<Rightarrow> bool" where
  "compared self = (actual self \<noteq> not_compared)"

definition matched :: "AnyIf \<Rightarrow> bool" where
  "matched self = (actual self \<noteq> not_compared \<and> actual self \<noteq> not_matched)"

text \<open>\<^verbatim>\<open>AnyIf._validator\<close>: \<^verbatim>\<open>not self.validator or self.validator(other)\<close>.\<close>

definition AnyIf_validator :: "heap \<Rightarrow> AnyIf \<Rightarrow> pyval \<Rightarrow> error + bool" where
  "AnyIf_validator h self other =
     (case validator self of None \<Rightarrow> Inr True | Some f \<Rightarrow> f h other)"

text \<open>
  \<^verbatim>\<open>AnyUUID._validator\<close>: only \<^verbatim>\<open>ValueError\<close> is caught.
  \<^verbatim>\<open>
        if not isinstance(other, (str, UUID)):
            return False
        try:
            UUID(other)
            return True
        except ValueError:
            return False
  \<close>
\<close>

definition AnyUUID_validator :: "pyval \<Rightarrow> error + bool" where
  "AnyUUID_validator other =
     (if \<not> isinstance_str_UUID other then Inr False
      else (case UUID_init other of
              Inr u \<Rightarrow> Inr True
            | Inl e \<Rightarrow> if e = ValueError then Inr False else Inl e))"

text \<open>The call \<^verbatim>\<open>self._validator(other)\<close> is dispatched on the class of \<open>self\<close>.\<close>

definition call_validator :: "heap \<Rightarrow> AnyIf \<Rightarrow> pyval \<Rightarrow> error + bool" where
  "call_validator h self other =
     (if cls self = C_AnyUUID then AnyUUID_validator other
      else AnyIf_validator h self other)"

text \<open>
  \<^verbatim>\<open>
    def __eq__(self, other):
        res = self._validator(other)
        if res:
            self.actual = other
            self.actuals.append(other)
        else:
            self.actual = _not_matched
        return res
  \<close>
  The result is the returned boolean and the object after the call; when the validator
  raises, nothing has been assigned yet.
\<close>

definition AnyIf_eq :: "heap \<Rightarrow> AnyIf \<Rightarrow> pyval \<Rightarrow> error + (bool \<times> AnyIf)" where
  "AnyIf_eq h self other =
     (case call_validator h self other of
        Inl e \<Rightarrow> Inl e
      | Inr res \<Rightarrow>
          if res then Inr (res, self\<lparr>actual := other, actuals := actuals self @ [other]\<rparr>)
          else Inr (res, self\<lparr>actual := not_matched\<rparr>))"

text \<open>\<^verbatim>\<open>__ne__\<close>: \<^verbatim>\<open>return not (self == other)\<close>.\<close>

definition AnyIf_ne :: "heap \<Rightarrow> AnyIf \<Rightarrow> pyval \<Rightarrow> error + (bool \<times> AnyIf)" where
  "AnyIf_ne h self other =
     (case AnyIf_eq h self other of
        Inl e \<Rightarrow> Inl e
      | Inr (res, self') \<Rightarrow> Inr (\<not> res, self'))"

text \<open>
  \<^verbatim>\<open>
    def __repr__(self):
        if not self.compared:
            return f'<not compared: {self.description}>'
        elif not self.matched:
            return self.description
        else:
            return repr(self.actual)
  \<close>
\<close>

definition AnyIf_repr :: "(pyval \<Rightarrow> string) \<Rightarrow> AnyIf \<Rightarrow> string" where
  "AnyIf_repr repr self =
     (if \<not> compared self then ''<not compared: '' @ description self @ ''>''
      else if \<not> matched self then description self
      else repr (actual self))"

subsection \<open>The subclasses\<close>

definition AnyInteger_init :: "string \<Rightarrow> AnyIf" where
  "AnyInteger_init self_repr =
     AnyIf_init C_AnyInteger self_repr (Some (\<lambda>h v. Inr (isinstance_int v)))"

definition AnyString_init :: "string \<Rightarrow> AnyIf" where
  "AnyString_init self_repr =
     AnyIf_init C_AnyString self_repr (Some (\<lambda>h v. Inr (isinstance_str v)))"

text \<open>\<^verbatim>\<open>AnyUUID\<close> has no constructor of its own and passes no validator.\<close>

definition AnyUUID_init :: "string \<Rightarrow> AnyIf" where
  "AnyUUID_init self_repr = AnyIf_init C_AnyUUID self_repr None"

text \<open>
  \<^verbatim>\<open>pattern.match(v)\<close> raises \<^verbatim>\<open>TypeError\<close> unless \<open>v\<close> is a string (a bytes-like
  object is refused by a pattern compiled from a string).
\<close>

definition pattern_match :: "(string \<Rightarrow> bool) \<Rightarrow> pyval \<Rightarrow> error + bool" where
  "pattern_match pattern v = (case v of VStr s \<Rightarrow> Inr (pattern s) | _ \<Rightarrow> Inl TypeError)"

definition AnyStringMatchingRegex_init ::
  "(string \<Rightarrow> error + (string \<Rightarrow> bool)) \<Rightarrow> string \<Rightarrow> string \<Rightarrow> error + AnyIf" where
  "AnyStringMatchingRegex_init re_compile self_repr pattern =
     (case re_compile pattern of
        Inl e \<Rightarrow> Inl e
      | Inr pattern' \<Rightarrow>
          Inr ((AnyIf_init C_AnyStringMatchingRegex self_repr
                  (Some (\<lambda>h v. pattern_match pattern' v)))
               \<lparr>other_attr := Some pattern'\<rparr>))"

text \<open>
  \<^verbatim>\<open>lambda v: sorted(v) == sorted(items)\<close>: the closure holds the reference \<open>items\<close>
  it was given, and reads the object behind it at each call.
\<close>

definition sorted_equal :: "nat \<Rightarrow> heap \<Rightarrow> pyval \<Rightarrow> error + bool" where
  "sorted_equal items h v =
     (case sorted_py v of
        Inl e \<Rightarrow> Inl e
      | Inr xs \<Rightarrow>
          (case sorted_py (h items) of
             Inl e \<Rightarrow> Inl e
           | Inr ys \<Rightarrow> Inr (py_eq_list xs ys)))"

definition Unordered_init :: "string \<Rightarrow> nat \<Rightarrow> AnyIf" where
  "Unordered_init self_repr items =
     AnyIf_init C_Unordered self_repr (Some (sorted_equal items))"

text \<open>\<^verbatim>\<open>AnyOf(*items)\<close>: the arguments arrive as a new tuple.\<close>

definition AnyOf_init :: "(pyval \<Rightarrow> string) \<Rightarrow> string \<Rightarrow> pyval list \<Rightarrow> AnyIf" where
  "AnyOf_init repr self_repr items =
     (AnyIf_init C_AnyOf self_repr (Some (\<lambda>h v. Inr (py_in v items))))
     \<lparr>description := ''any of '' @ repr (VTuple items)\<rparr>"

definition AnyWebURLString_init :: "string \<Rightarrow> AnyIf" where
  "AnyWebURLString_init self_repr =
     AnyIf_init C_AnyWebURLString self_repr
       (Some (\<lambda>h v. Inr (isinstance_str v \<and>
          (case v of VStr s \<Rightarrow> startswith s ''http://'' \<or> startswith s ''https://''
                   | _ \<Rightarrow> False))))"

section \<open>Sequences of comparisons\<close>

text \<open>
  A matcher is compared any number of times, each time against some value in some
  state of the heap. A comparison that raises leaves the matcher as it was.
\<close>

definition compare_step :: "AnyIf \<Rightarrow> heap \<times> pyval \<Rightarrow> AnyIf" where
  "compare_step self hv =
     (case AnyIf_eq (fst hv) self (snd hv) of Inl e \<Rightarrow> self | Inr (res, self') \<Rightarrow> self')"

definition compare_all :: "AnyIf \<Rightarrow> (heap \<times> pyval) list \<Rightarrow> AnyIf" where
  "compare_all self hvs = foldl compare_step self hvs"

definition accepts :: "AnyIf \<Rightarrow> heap \<times> pyval \<Rightarrow> bool" where
  "accepts self hv = (call_validator (fst hv) self (snd hv) = Inr True)"

section \<open>Equality of dictionaries\<close>

text \<open>
  The comparison \<^verbatim>\<open>a == b\<close> of two dictionaries is the interpreter's: unequal sizes
  give \<^verbatim>\<open>False\<close>; otherwise the entries of \<open>a\<close> are visited in insertion order, the key
  is looked up in \<open>b\<close>, and the two values are compared with \<^verbatim>\<open>==\<close>, stopping at the
  first pair that differs. The left value is plain data; when the right value is a
  matcher, \<^verbatim>\<open>==\<close> ends in the matcher's \<^verbatim>\<open>__eq__\<close> with the left value as \<open>other\<close>.
  Matcher objects live in a store indexed by identity. Keys are strings.
\<close>

datatype expected = Lit pyval | Ref nat

definition value_eq ::
  "heap \<Rightarrow> (nat \<Rightarrow> AnyIf) \<Rightarrow> pyval \<Rightarrow> expected \<Rightarrow> error + (bool \<times> (nat \<Rightarrow> AnyIf))" where
  "value_eq h ms aval bval =
     (case bval of
        Lit w \<Rightarrow> Inr (rich_eq aval w, ms)
      | Ref r \<Rightarrow>
          (case AnyIf_eq h (ms r) aval of
             Inl e \<Rightarrow> Inl e
           | Inr (res, m') \<Rightarrow> Inr (res, ms(r := m'))))"

fun dict_equal ::
  "heap \<Rightarrow> (nat \<Rightarrow> AnyIf) \<Rightarrow> (string \<times> pyval) list \<Rightarrow> (string \<times> expected) list
     \<Rightarrow> error + (bool \<times> (nat \<Rightarrow> AnyIf))" where
  "dict_equal h ms [] b = Inr (True, ms)"
| "dict_equal h ms ((k, aval) # rest) b =
     (case map_of b k of
        None \<Rightarrow> Inr (False, ms)
      | Some bval \<Rightarrow>
          (case value_eq h ms aval bval of
             Inl e \<Rightarrow> Inl e
           | Inr (res, ms') \<Rightarrow>
               if res then dict_equal h ms' rest b else Inr (False, ms')))"

definition dict_eq ::
  "heap \<Rightarrow> (nat \<Rightarrow> AnyIf) \<Rightarrow> (string \<times> pyval) list \<Rightarrow> (string \<times> expected) list
     \<Rightarrow> error + (bool \<times> (nat \<Rightarrow> AnyIf))" where
  "dict_eq h ms a b =
     (if length a \<noteq> length b then Inr (False, ms) else dict_equal h ms a b)"

text \<open>
  The comparison of \<^verbatim>\<open>test_diff\<close> in \<^verbatim>\<open>test_matchers.py\<close>: the matcher objects
  \<^verbatim>\<open>AnyInteger()\<close> and \<^verbatim>\<open>AnyOf(456, '789')\<close> are the objects 0 and 1 of the store.
\<close>

definition test_diff ::
  "(pyval \<Rightarrow> string) \<Rightarrow> heap \<Rightarrow> string \<Rightarrow> string \<Rightarrow> error + (bool \<times> (nat \<Rightarrow> AnyIf))" where
  "test_diff repr h r0 r1 =
     dict_eq h
       ((\<lambda>_. AnyInteger_init r0)(1 := AnyOf_init repr r1 [VInt 456, VStr ''789'']))
       [(''foo'', VInt 123),
        (''bar'', VStr ''456'')]
       [(''foo'', Ref 0), (''bar'', Ref 1)]"

section \<open>Auxiliary facts\<close>





lemma sentinels_distinct: "not_matched \<noteq> not_compared"
  by (simp add: not_compared_def not_matched_def)

lemma call_validator_fields:
  "cls m' = cls m \<Longrightarrow> validator m' = validator m \<Longrightarrow> call_validator h m' v = call_validator h m v"
  by (simp add: call_validator_def AnyIf_validator_def)

lemma AnyIf_eq_True:
  "call_validator h m v = Inr True \<Longrightarrow>
   AnyIf_eq h m v = Inr (True, m\<lparr>actual := v, actuals := actuals m @ [v]\<rparr>)"
  by (simp add: AnyIf_eq_def)

lemma AnyIf_eq_False:
  "call_validator h m v = Inr False \<Longrightarrow> AnyIf_eq h m v = Inr (False, m\<lparr>actual := not_matched\<rparr>)"
  by (simp add: AnyIf_eq_def)

lemma AnyIf_eq_raises: "call_validator h m v = Inl e \<Longrightarrow> AnyIf_eq h m v = Inl e"
  by (simp add: AnyIf_eq_def)

lemma AnyIf_eq_InrD:
  assumes "AnyIf_eq h m v = Inr (b, m')"
  shows "call_validator h m v = Inr b"
    and "b \<Longrightarrow> m' = m\<lparr>actual := v, actuals := actuals m @ [v]\<rparr>"
    and "\<not> b \<Longrightarrow> m' = m\<lparr>actual := not_matched\<rparr>"
  using assms by (auto simp: AnyIf_eq_def split: sum.splits if_splits)

lemma compare_step_cases:
  "compare_step m hv =
     (if accepts m hv then m\<lparr>actual := snd hv, actuals := actuals m @ [snd hv]\<rparr>
      else if call_validator (fst hv) m (snd hv) = Inr False then m\<lparr>actual := not_matched\<rparr>
      else m)"
proof (cases "call_validator (fst hv) m (snd hv)")
  case (Inl e)
  then show ?thesis
    by (simp add: compare_step_def accepts_def AnyIf_eq_raises)
next
  case (Inr b)
  then show ?thesis
    by (cases b) (simp_all add: compare_step_def accepts_def AnyIf_eq_True AnyIf_eq_False)
qed

lemma compare_step_fields:
  "cls (compare_step m hv) = cls m" "validator (compare_step m hv) = validator m"
  by (simp_all add: compare_step_cases)

lemma accepts_compare_step: "accepts (compare_step m hv) = accepts m"
  by (rule ext) (simp add: accepts_def call_validator_fields [OF compare_step_fields])

lemma actuals_compare_step:
  "actuals (compare_step m hv) = actuals m @ (if accepts m hv then [snd hv] else [])"
  by (simp add: compare_step_cases)

lemma actuals_foldl_compare_step:
  "actuals (foldl compare_step m hvs) = actuals m @ map snd (filter (accepts m) hvs)"
proof (induction hvs arbitrary: m)
  case Nil
  show ?case by simp
next
  case (Cons hv hvs)
  have "actuals (foldl compare_step (compare_step m hv) hvs) =
          actuals (compare_step m hv) @ map snd (filter (accepts (compare_step m hv)) hvs)"
    by (rule Cons.IH)
  then show ?case
    by (simp add: accepts_compare_step actuals_compare_step)
qed

lemma UUID_init_not_a_uuid: "UUID_init (VStr ''not-a-uuid'') = Inl ValueError"
  by (simp add: UUID_init_def str_strip_def)

lemma sorted_312: "sorted_py (VList [VInt 3, VInt 1, VInt 2]) = Inr [VInt 1, VInt 2, VInt 3]"
  by code_simp

lemma sorted_231: "sorted_py (VList [VInt 2, VInt 3, VInt 1]) = Inr [VInt 1, VInt 2, VInt 3]"
  by code_simp

lemma sorted_12: "sorted_py (VList [VInt 1, VInt 2]) = Inr [VInt 1, VInt 2]"
  by code_simp

lemma Unordered_validator:
  "call_validator h (Unordered_init r items) v = sorted_equal items h v"
  by (simp add: call_validator_def AnyIf_validator_def Unordered_init_def AnyIf_init_def)

lemma AnyInteger_validator:
  "call_validator h (AnyInteger_init r) v = Inr (isinstance_int v)"
  by (simp add: call_validator_def AnyIf_validator_def AnyInteger_init_def AnyIf_init_def)

lemma AnyInteger_fields:
  "actual (AnyInteger_init r) = not_matched" "actuals (AnyInteger_init r) = []"
  "description (AnyInteger_init r) = r"
  by (simp_all add: AnyInteger_init_def AnyIf_init_def)

lemma AnyInteger_eq_accept:
  "isinstance_int v \<Longrightarrow>
   AnyIf_eq h (AnyInteger_init r) v
     = Inr (True, (AnyInteger_init r)\<lparr>actual := v, actuals := [v]\<rparr>)"
  using AnyIf_eq_True [of h "AnyInteger_init r" v]
  by (simp add: AnyInteger_validator AnyInteger_fields)

lemma AnyInteger_eq_reject:
  "\<not> isinstance_int v \<Longrightarrow>
   AnyIf_eq h (AnyInteger_init r) v = Inr (False, (AnyInteger_init r)\<lparr>actual := not_matched\<rparr>)"
  using AnyIf_eq_False [of h "AnyInteger_init r" v]
  by (simp add: AnyInteger_validator)

lemma AnyUUID_validator_call:
  "call_validator h (AnyUUID_init r) v = AnyUUID_validator v"
  by (simp add: call_validator_def AnyUUID_init_def AnyIf_init_def)

text \<open>
  The three branches of \<^verbatim>\<open>__repr__\<close>, by the state of \<^verbatim>\<open>actual\<close>.
\<close>

lemma AnyIf_repr_by_state:
  "AnyIf_repr repr m =
     (if actual m = not_compared then ''<not compared: '' @ description m @ ''>''
      else if actual m = not_matched then description m
      else repr (actual m))"
  by (simp add: AnyIf_repr_def compared_def matched_def)

section \<open>The claims\<close>

text \<open>
  C1. A freshly constructed matcher should have \<open>compared\<close> false and \<open>matched\<close> false.
  The constructor assigns the sentinel \<^verbatim>\<open>_not_matched\<close>, not \<^verbatim>\<open>_not_compared\<close>: on a
  fresh matcher of any class, \<open>matched\<close> is false but \<open>compared\<close> is true.
\<close>

theorem fresh_matcher_compared:
  "actual (AnyIf_init c r f) = not_matched
   \<and> compared (AnyIf_init c r f) \<and> \<not> matched (AnyIf_init c r f)
   \<and> compared (AnyInteger_init r) \<and> \<not> matched (AnyInteger_init r)"
  by (simp add: AnyInteger_init_def AnyIf_init_def compared_def matched_def
      sentinels_distinct)

text \<open>
  C2. The comparison of \<^verbatim>\<open>test_diff\<close>, \<^verbatim>\<open>{'foo': 123, 'bar': '456'}\<close> against
  \<^verbatim>\<open>{'foo': AnyInteger(), 'bar': AnyOf(456, '789')}\<close>, which the test asserts to hold,
  yields false: the string \<^verbatim>\<open>'456'\<close> is not among \<^verbatim>\<open>(456, '789')\<close>. Afterwards the
  \<^verbatim>\<open>AnyInteger()\<close> instance holds \<open>actual = 123\<close> and is matched, and the
  \<^verbatim>\<open>AnyOf(456, '789')\<close> instance holds the sentinel \<^verbatim>\<open>_not_matched\<close>.
\<close>

theorem test_diff_result:
  "\<exists>ms'. test_diff repr h r0 r1 = Inr (False, ms')
     \<and> actual (ms' 0) = VInt 123 \<and> matched (ms' 0)
     \<and> actual (ms' 1) = not_matched \<and> \<not> matched (ms' 1)"
  by (simp add: test_diff_def dict_eq_def value_eq_def AnyIf_eq_def call_validator_def
      AnyIf_validator_def AnyInteger_init_def AnyOf_init_def AnyIf_init_def
      isinstance_int_def py_in_def matched_def not_compared_def not_matched_def)

text \<open>
  C3. The equality operation should never raise. It does: a value that is not iterable
  makes the \<^verbatim>\<open>Unordered\<close> matcher raise \<^verbatim>\<open>TypeError\<close>, a \<^verbatim>\<open>UUID\<close> instance makes the
  \<^verbatim>\<open>AnyUUID\<close> matcher raise \<^verbatim>\<open>AttributeError\<close>, and a value that is not a string makes
  a \<^verbatim>\<open>AnyStringMatchingRegex\<close> matcher (once its pattern has compiled) raise
  \<^verbatim>\<open>TypeError\<close>.
\<close>

theorem eq_raises_on_type_mismatch:
  "AnyIf_eq h (Unordered_init r items) (VInt n) = Inl TypeError
   \<and> AnyIf_eq h (AnyUUID_init r) (VUUID u) = Inl AttributeError
   \<and> (AnyStringMatchingRegex_init re_compile r p = Inr m
        \<longrightarrow> AnyIf_eq h m (VInt n) = Inl TypeError)"
proof (intro conjI impI)
  show "AnyIf_eq h (Unordered_init r items) (VInt n) = Inl TypeError"
    by (rule AnyIf_eq_raises)
      (simp add: Unordered_validator sorted_equal_def sorted_py_def py_iter_def)
  show "AnyIf_eq h (AnyUUID_init r) (VUUID u) = Inl AttributeError"
    by (rule AnyIf_eq_raises)
      (simp add: AnyUUID_validator_call AnyUUID_validator_def isinstance_str_UUID_def
        UUID_init_def)
  assume "AnyStringMatchingRegex_init re_compile r p = Inr m"
  then obtain rx where
    m: "m = (AnyIf_init C_AnyStringMatchingRegex r (Some (\<lambda>h v. pattern_match rx v)))
              \<lparr>other_attr := Some rx\<rparr>"
    by (auto simp: AnyStringMatchingRegex_init_def split: sum.splits)
  have "call_validator h m (VInt n) = Inl TypeError"
    by (simp add: m call_validator_def AnyIf_validator_def AnyIf_init_def pattern_match_def)
  then show "AnyIf_eq h m (VInt n) = Inl TypeError"
    by (rule AnyIf_eq_raises)
qed

theorem eq_raises_on_type_mismatch_witness:
  "AnyStringMatchingRegex_init (\<lambda>p. Inr (\<lambda>s. startswith s p)) ''m'' ''abc''
     = Inr ((AnyIf_init C_AnyStringMatchingRegex ''m''
              (Some (\<lambda>h v. pattern_match (\<lambda>s. startswith s ''abc'') v)))
            \<lparr>other_attr := Some (\<lambda>s. startswith s ''abc'')\<rparr>)
   \<and> AnyIf_eq (\<lambda>a. VNone)
       ((AnyIf_init C_AnyStringMatchingRegex ''m''
              (Some (\<lambda>h v. pattern_match (\<lambda>s. startswith s ''abc'') v)))
            \<lparr>other_attr := Some (\<lambda>s. startswith s ''abc'')\<rparr>)
       (VInt 123) = Inl TypeError"
  (is "?compiled \<and> ?raises")
proof -
  have c: ?compiled
    by (simp add: AnyStringMatchingRegex_init_def)
  have r: ?raises
    by (rule eq_raises_on_type_mismatch [THEN conjunct2, THEN conjunct2, THEN mp, OF c])
  show ?thesis
    by (rule conjI [OF c r])
qed

text \<open>
  C4. The representation of a matcher that has never been compared should carry the
  mark \<^verbatim>\<open>not compared\<close>. A fresh \<^verbatim>\<open>AnyInteger()\<close> renders as its bare description, as a
  matcher whose last comparison failed does: the constructor leaves it in that state.
\<close>

theorem fresh_AnyInteger_repr:
  "AnyIf_repr repr (AnyInteger_init r) = r
   \<and> AnyIf_repr repr (AnyInteger_init r) \<noteq> ''<not compared: '' @ r @ ''>''"
proof -
  have eq: "AnyIf_repr repr (AnyInteger_init r) = r"
    by (simp add: AnyIf_repr_by_state AnyInteger_fields sentinels_distinct)
  have "length (''<not compared: '' @ r @ ''>'') \<noteq> length r"
    by simp
  then have "r \<noteq> ''<not compared: '' @ r @ ''>''"
    by metis
  with eq show ?thesis
    by simp
qed

text \<open>
  C5. The \<^verbatim>\<open>AnyUUID\<close> matcher should accept every \<^verbatim>\<open>UUID\<close> instance. Comparing it with
  one raises \<^verbatim>\<open>AttributeError\<close>, which \<^verbatim>\<open>_validator\<close> does not catch. The string
  \<^verbatim>\<open>'not-a-uuid'\<close> is rejected without an exception, and the matcher is not matched
  afterwards.
\<close>

theorem AnyUUID_eq_UUID_instance:
  "AnyIf_eq h (AnyUUID_init r) (VUUID u) = Inl AttributeError
   \<and> (\<exists>m'. AnyIf_eq h (AnyUUID_init r) (VStr ''not-a-uuid'') = Inr (False, m')
          \<and> \<not> matched m')"
proof
  show "AnyIf_eq h (AnyUUID_init r) (VUUID u) = Inl AttributeError"
    by (rule AnyIf_eq_raises)
      (simp add: AnyUUID_validator_call AnyUUID_validator_def isinstance_str_UUID_def
        UUID_init_def)
  have "call_validator h (AnyUUID_init r) (VStr ''not-a-uuid'') = Inr False"
    by (simp add: AnyUUID_validator_call AnyUUID_validator_def isinstance_str_UUID_def
        UUID_init_not_a_uuid)
  then have "AnyIf_eq h (AnyUUID_init r) (VStr ''not-a-uuid'')
               = Inr (False, (AnyUUID_init r)\<lparr>actual := not_matched\<rparr>)"
    by (rule AnyIf_eq_False)
  then show "\<exists>m'. AnyIf_eq h (AnyUUID_init r) (VStr ''not-a-uuid'') = Inr (False, m')
               \<and> \<not> matched m'"
    by (simp add: matched_def)
qed

text \<open>
  C6. The expected collection of \<^verbatim>\<open>Unordered\<close> is not a snapshot. With the list
  \<^verbatim>\<open>[3, 1, 2]\<close> as object 0, the matcher \<^verbatim>\<open>Unordered\<close> of that object accepts
  \<^verbatim>\<open>[2, 3, 1]\<close>; once the caller has removed the 3 from the list, the same matcher
  rejects \<^verbatim>\<open>[2, 3, 1]\<close> and accepts \<^verbatim>\<open>[1, 2]\<close>.
\<close>

theorem Unordered_not_a_snapshot:
  "map_sum id fst
     (AnyIf_eq ((\<lambda>a. VNone)(0 := VList [VInt 3, VInt 1, VInt 2])) (Unordered_init ''m'' 0)
        (VList [VInt 2, VInt 3, VInt 1])) = Inr True
   \<and> map_sum id fst
     (AnyIf_eq ((\<lambda>a. VNone)(0 := VList [VInt 1, VInt 2])) (Unordered_init ''m'' 0)
        (VList [VInt 2, VInt 3, VInt 1])) = Inr False
   \<and> map_sum id fst
     (AnyIf_eq ((\<lambda>a. VNone)(0 := VList [VInt 1, VInt 2])) (Unordered_init ''m'' 0)
        (VList [VInt 1, VInt 2])) = Inr True"
  by (simp add: AnyIf_eq_def Unordered_validator sorted_equal_def sorted_312 sorted_231
      sorted_12)

text \<open>
  C6, as the code has it: the matcher accepts \<open>v\<close> exactly when \<open>v\<close>, sorted, equals the
  sorted contents that the object given at construction has at the time of the
  comparison. With \<^verbatim>\<open>[3, 1, 2]\<close> behind the reference it accepts \<^verbatim>\<open>[2, 3, 1]\<close> and not
  \<^verbatim>\<open>[1, 2]\<close>.
\<close>

theorem Unordered_accepts_current_contents:
  "((\<exists>m'. AnyIf_eq h (Unordered_init r items) v = Inr (True, m'))
      \<longleftrightarrow> (\<exists>xs ys. sorted_py v = Inr xs \<and> sorted_py (h items) = Inr ys \<and> py_eq_list xs ys))
   \<and> (\<exists>m'. AnyIf_eq (h(items := VList [VInt 3, VInt 1, VInt 2])) (Unordered_init r items)
              (VList [VInt 2, VInt 3, VInt 1]) = Inr (True, m'))
   \<and> (\<exists>m'. AnyIf_eq (h(items := VList [VInt 3, VInt 1, VInt 2])) (Unordered_init r items)
              (VList [VInt 1, VInt 2]) = Inr (False, m'))"
proof (intro conjI)
  show "(\<exists>m'. AnyIf_eq h (Unordered_init r items) v = Inr (True, m'))
      \<longleftrightarrow> (\<exists>xs ys. sorted_py v = Inr xs \<and> sorted_py (h items) = Inr ys \<and> py_eq_list xs ys)"
    by (auto simp: AnyIf_eq_def Unordered_validator sorted_equal_def split: sum.splits)
  show "\<exists>m'. AnyIf_eq (h(items := VList [VInt 3, VInt 1, VInt 2])) (Unordered_init r items)
              (VList [VInt 2, VInt 3, VInt 1]) = Inr (True, m')"
    by (simp add: AnyIf_eq_def Unordered_validator sorted_equal_def sorted_312 sorted_231)
  show "\<exists>m'. AnyIf_eq (h(items := VList [VInt 3, VInt 1, VInt 2])) (Unordered_init r items)
              (VList [VInt 1, VInt 2]) = Inr (False, m')"
    by (simp add: AnyIf_eq_def Unordered_validator sorted_equal_def sorted_312 sorted_12)
qed




text \<open>
  C8. \<^verbatim>\<open>m != v\<close> is the negation of \<^verbatim>\<open>m == v\<close> and leaves the matcher in the same state:
  the one returns \<open>b\<close> with the matcher becoming \<open>m'\<close> exactly when the other returns
  \<open>\<not> b\<close> with the matcher becoming \<open>m'\<close>, and the one raises exactly when the other does.
\<close>

theorem ne_negates_eq:
  "(AnyIf_ne h m v = Inr (\<not> b, m') \<longleftrightarrow> AnyIf_eq h m v = Inr (b, m'))
   \<and> (AnyIf_ne h m v = Inl e \<longleftrightarrow> AnyIf_eq h m v = Inl e)"
  by (auto simp: AnyIf_ne_def split: sum.splits)

text \<open>
  C9. Over any sequence of comparisons, \<open>actuals\<close> only grows at its end: it is the
  list before the sequence followed by the compared values that the validator
  accepted at the time of their comparison, in order. A single comparison that
  returns true appends the compared value, which the validator accepted; one that
  returns false leaves \<open>actuals\<close> as it was.
\<close>

theorem actuals_append_only:
  "actuals (compare_all m hvs) = actuals m @ map snd (filter (accepts m) hvs)
   \<and> accepts (compare_all m hvs) = accepts m
   \<and> (AnyIf_eq h m v = Inr (True, m')
        \<longrightarrow> actuals m' = actuals m @ [v] \<and> call_validator h m v = Inr True)
   \<and> (AnyIf_eq h m v = Inr (False, m') \<longrightarrow> actuals m' = actuals m)"
proof (intro conjI impI)
  show "actuals (compare_all m hvs) = actuals m @ map snd (filter (accepts m) hvs)"
    by (simp add: compare_all_def actuals_foldl_compare_step)
  show "accepts (compare_all m hvs) = accepts m"
    unfolding compare_all_def
    by (induction hvs arbitrary: m) (simp_all add: accepts_compare_step)
  show "actuals m' = actuals m @ [v]" if "AnyIf_eq h m v = Inr (True, m')"
    using AnyIf_eq_InrD(2) [OF that] by simp
  show "call_validator h m v = Inr True" if "AnyIf_eq h m v = Inr (True, m')"
    using that by (rule AnyIf_eq_InrD(1))
  show "actuals m' = actuals m" if "AnyIf_eq h m v = Inr (False, m')"
    using AnyIf_eq_InrD(3) [OF that] by simp
qed

theorem actuals_append_only_witness:
  "actuals (compare_all (AnyInteger_init ''m'')
      [(\<lambda>a. VNone, VInt 1), (\<lambda>a. VNone, VStr ''x''), (\<lambda>a. VNone, VInt 2)])
     = [VInt 1, VInt 2]
   \<and> AnyIf_eq (\<lambda>a. VNone) (AnyInteger_init ''m'') (VInt 1)
       = Inr (True, (AnyInteger_init ''m'')\<lparr>actual := VInt 1, actuals := [VInt 1]\<rparr>)
   \<and> (actuals ((AnyInteger_init ''m'')\<lparr>actual := VInt 1, actuals := [VInt 1]\<rparr>)
        = actuals (AnyInteger_init ''m'') @ [VInt 1]
      \<and> call_validator (\<lambda>a. VNone) (AnyInteger_init ''m'') (VInt 1) = Inr True)
   \<and> AnyIf_eq (\<lambda>a. VNone) (AnyInteger_init ''m'') (VStr ''x'')
       = Inr (False, (AnyInteger_init ''m'')\<lparr>actual := not_matched\<rparr>)
   \<and> actuals ((AnyInteger_init ''m'')\<lparr>actual := not_matched\<rparr>)
       = actuals (AnyInteger_init ''m'')"
  (is "?a \<and> ?e1 \<and> ?c1 \<and> ?e2 \<and> ?c2")
proof -
  have a: ?a
    using actuals_append_only
      [of "AnyInteger_init ''m''"
        "[(\<lambda>a. VNone, VInt 1), (\<lambda>a. VNone, VStr ''x''), (\<lambda>a. VNone, VInt 2)]",
        THEN conjunct1]
    by (simp add: accepts_def AnyInteger_validator isinstance_int_def AnyInteger_fields)
  have e1: ?e1
    by (rule AnyInteger_eq_accept) (simp add: isinstance_int_def)
  have e2: ?e2
    by (rule AnyInteger_eq_reject) (simp add: isinstance_int_def)
  have c1: ?c1
    by (rule actuals_append_only
        [THEN conjunct2, THEN conjunct2, THEN conjunct1, THEN mp, OF e1])
  have c2: ?c2
    by (rule actuals_append_only
        [THEN conjunct2, THEN conjunct2, THEN conjunct2, THEN mp, OF e2])
  show ?thesis
    by (rule conjI [OF a conjI [OF e1 conjI [OF c1 conjI [OF e2 c2]]]])
qed

text \<open>
  C10. The integer matcher accepts booleans: \<^verbatim>\<open>AnyInteger() == True\<close> and
  \<^verbatim>\<open>AnyInteger() == False\<close> both return true, and the boolean is recorded.
\<close>

theorem AnyInteger_accepts_bool:
  "AnyIf_eq h (AnyInteger_init r) (VBool True)
     = Inr (True, (AnyInteger_init r)\<lparr>actual := VBool True, actuals := [VBool True]\<rparr>)
   \<and> AnyIf_eq h (AnyInteger_init r) (VBool False)
     = Inr (True, (AnyInteger_init r)\<lparr>actual := VBool False, actuals := [VBool False]\<rparr>)"
  by (simp add: AnyInteger_eq_accept isinstance_int_def)

end
